theory Spec2Isabelle
  imports Main
begin

section \<open>Values, faults and the objects the executor module works on\<close>

text \<open>
  The module \<^verbatim>\<open>taskflow/engines/action_engine/executor.py\<close> runs one \<^verbatim>\<open>execute\<close> or
  \<^verbatim>\<open>revert\<close> call of a task, inline or on a worker pool. The embedding keeps the source's
  names; a leading underscore, which an Isabelle name cannot start with, is written \<open>u_\<close>
  (\<^verbatim>\<open>_autobind\<close> is \<open>u_autobind\<close>).

  A raised Python exception is a value of type \<open>fault\<close>: the name of its class, its
  message, and where its class stands in the hierarchy, as far as the module and the context
  manager it uses tell classes apart. The handlers of the module are
  \<^verbatim>\<open>except Exception:\<close>, which catches the instances of \<^verbatim>\<open>Exception\<close> only and lets
  the other instances of \<^verbatim>\<open>BaseException\<close> (\<^verbatim>\<open>KeyboardInterrupt\<close>, \<^verbatim>\<open>SystemExit\<close>,
  \<^verbatim>\<open>GeneratorExit\<close>) pass; \<open>is_Exception\<close> is that \<^verbatim>\<open>isinstance\<close> test.
  \<^verbatim>\<open>StopIteration\<close> and its subclasses, which are instances of \<^verbatim>\<open>Exception\<close>, are
  set apart because a generator treats them in its own way; \<open>is_StopIteration\<close> is
  \<^verbatim>\<open>isinstance(e, StopIteration)\<close>.
\<close>

datatype exc_kind =
    BaseExceptionKind
  | ExceptionKind
  | StopIterationKind

datatype fault = Fault (exc_class: string) (exc_message: string) (exc_kind: exc_kind)

fun is_Exception :: "fault \<Rightarrow> bool" where
  "is_Exception (Fault c m BaseExceptionKind) = False"
| "is_Exception (Fault c m ExceptionKind) = True"
| "is_Exception (Fault c m StopIterationKind) = True"

fun is_StopIteration :: "fault \<Rightarrow> bool" where
  "is_StopIteration (Fault c m BaseExceptionKind) = False"
| "is_StopIteration (Fault c m ExceptionKind) = False"
| "is_StopIteration (Fault c m StopIterationKind) = True"

definition AttributeError :: "string \<Rightarrow> fault" where
  "AttributeError msg = Fault ''AttributeError'' msg ExceptionKind"

definition RuntimeError :: "string \<Rightarrow> fault" where
  "RuntimeError msg = Fault ''RuntimeError'' msg ExceptionKind"

datatype pyval =
    PyNone
  | PyInt int
  | PyStr string
  | PyDict "(string \<times> pyval) list"
  | PyFailure fault

text \<open>
  Modelled from the spec: the class \<^verbatim>\<open>taskflow.utils.misc.Failure\<close> is not part of the
  source at hand. The spec describes a Failure as an immutable value capturing the identity of
  the raised exception, two failures being equal iff the captured identity matches.
  \<^verbatim>\<open>misc.Failure()\<close> without arguments, called inside a handler, captures the exception
  being handled.
\<close>

definition Failure :: "fault \<Rightarrow> pyval" where
  "Failure e = PyFailure e"

text \<open>A keyword-argument mapping; the progress callback is a function object, known by its
  identity only.\<close>

type_synonym kwargs = "string \<rightharpoonup> pyval"

datatype callback = u_noop | Callback nat

text \<open>
  A task is an object of the caller with the four methods the module invokes. Each method may
  return or raise, and the task may keep state of its own, so a method's behaviour is a
  function of the invocations made so far (the log \<open>calls\<close> of the world below) and of its
  arguments. \<open>None\<close> from \<open>t_bind\<close> or \<open>t_unbind\<close> is a normal return. The methods get
  the items of a keyword mapping (\<^verbatim>\<open>**kwargs\<close> makes a mapping of its own for the callee),
  not a reference to a dict of the module or of its caller, and they are taken to leave the
  dicts and the pools of the world alone: what a task does is in its return values, its faults
  and the log.
\<close>

datatype call =
    BindCall nat string callback
  | ExecuteCall nat kwargs
  | RevertCall nat kwargs
  | UnbindCall nat string callback

record task =
  task_id :: nat
  t_bind :: "call list \<Rightarrow> string \<Rightarrow> callback \<Rightarrow> fault option"
  t_execute :: "call list \<Rightarrow> kwargs \<Rightarrow> fault + pyval"
  t_revert :: "call list \<Rightarrow> kwargs \<Rightarrow> fault + pyval"
  t_unbind :: "call list \<Rightarrow> string \<Rightarrow> callback \<Rightarrow> fault option"

text \<open>The operation outcome \<^verbatim>\<open>(task, verb, result)\<close> and the future that carries it.\<close>

type_synonym outcome = "task \<times> string \<times> pyval"

datatype future_state = PENDING | FINISHED

record future =
  fstate :: future_state
  fresult :: "outcome option"

text \<open>
  A worker pool in the manner of \<^verbatim>\<open>concurrent.futures.ThreadPoolExecutor\<close>: the number of
  workers, the shutdown flag, and the calls submitted so far. A submitted call is one of the
  two module-level runners with its arguments. The worker threads that take the calls from
  the queue are not modelled.
\<close>

datatype work =
    ExecuteWork task nat callback
  | RevertWork task nat pyval pyval callback

record pool =
  max_workers :: nat
  shutdown_flag :: bool
  work_queue :: "work list"

text \<open>
  The world: the log of the invocations made on tasks, the dict objects and the pool objects,
  each kind in a store of its own indexed by address, with the next free address. A reference
  to a dict or a pool is its address, so that two references to one object see each other's
  updates.
\<close>

record world =
  calls :: "call list"
  dicts :: "nat \<Rightarrow> kwargs"
  next_dict :: nat
  pools :: "nat \<Rightarrow> pool"
  next_pool :: nat

type_synonym 'a result = "(fault + 'a) \<times> world"

section \<open>The methods of the collaborators\<close>

definition task_bind :: "task \<Rightarrow> string \<Rightarrow> callback \<Rightarrow> world \<Rightarrow> unit result" where
  "task_bind task bind_name bind_func w =
     ((case t_bind task (calls w) bind_name bind_func of
         None \<Rightarrow> Inr ()
       | Some e \<Rightarrow> Inl e),
      w\<lparr>calls := calls w @ [BindCall (task_id task) bind_name bind_func]\<rparr>)"

definition task_unbind :: "task \<Rightarrow> string \<Rightarrow> callback \<Rightarrow> world \<Rightarrow> unit result" where
  "task_unbind task bind_name bind_func w =
     ((case t_unbind task (calls w) bind_name bind_func of
         None \<Rightarrow> Inr ()
       | Some e \<Rightarrow> Inl e),
      w\<lparr>calls := calls w @ [UnbindCall (task_id task) bind_name bind_func]\<rparr>)"

definition task_execute :: "task \<Rightarrow> kwargs \<Rightarrow> world \<Rightarrow> pyval result" where
  "task_execute task kw w =
     (t_execute task (calls w) kw,
      w\<lparr>calls := calls w @ [ExecuteCall (task_id task) kw]\<rparr>)"

definition task_revert :: "task \<Rightarrow> kwargs \<Rightarrow> world \<Rightarrow> pyval result" where
  "task_revert task kw w =
     (t_revert task (calls w) kw,
      w\<lparr>calls := calls w @ [RevertCall (task_id task) kw]\<rparr>)"

text \<open>\<^verbatim>\<open>d.copy()\<close> makes a new dict with the same items; \<^verbatim>\<open>d[k] = v\<close> updates in place.\<close>

definition dict_copy :: "nat \<Rightarrow> world \<Rightarrow> nat \<times> world" where
  "dict_copy d w =
     (next_dict w,
      w\<lparr>dicts := (dicts w)(next_dict w := dicts w d), next_dict := Suc (next_dict w)\<rparr>)"

definition dict_setitem :: "nat \<Rightarrow> string \<Rightarrow> pyval \<Rightarrow> world \<Rightarrow> world" where
  "dict_setitem d k v w = w\<lparr>dicts := (dicts w)(d := (dicts w d)(k \<mapsto> v))\<rparr>"

text \<open>
  \<^verbatim>\<open>futures.ThreadPoolExecutor(n)\<close> makes a pool with nothing submitted;
  \<^verbatim>\<open>pool.submit(fn, *args)\<close> raises \<^verbatim>\<open>RuntimeError\<close> once the pool is shut down and
  otherwise queues the call and returns a pending future; \<^verbatim>\<open>pool.shutdown(wait=True)\<close>
  sets the flag (and may be repeated).
\<close>

definition ThreadPoolExecutor :: "nat \<Rightarrow> world \<Rightarrow> nat \<times> world" where
  "ThreadPoolExecutor n w =
     (next_pool w,
      w\<lparr>pools := (pools w)(next_pool w :=
            \<lparr>max_workers = n, shutdown_flag = False, work_queue = []\<rparr>),
        next_pool := Suc (next_pool w)\<rparr>)"

definition submit :: "nat \<Rightarrow> work \<Rightarrow> world \<Rightarrow> future result" where
  "submit p item w =
     (if shutdown_flag (pools w p)
      then (Inl (RuntimeError ''cannot schedule new futures after shutdown''), w)
      else (Inr \<lparr>fstate = PENDING, fresult = None\<rparr>,
            w\<lparr>pools := (pools w)(p := (pools w p)\<lparr>work_queue := work_queue (pools w p) @ [item]\<rparr>)\<rparr>))"

definition shutdown :: "nat \<Rightarrow> world \<Rightarrow> world" where
  "shutdown p w = w\<lparr>pools := (pools w)(p := (pools w p)\<lparr>shutdown_flag := True\<rparr>)\<rparr>"

section \<open>The module-level functions\<close>

text \<open>
  \<^verbatim>\<open>
  @contextlib.contextmanager
  def _autobind(task, bind_name, bind_func, **kwargs):
      try:
          task.bind(bind_name, bind_func, **kwargs)
          yield task
      finally:
          task.unbind(bind_name, bind_func)
  \<close>
  used as \<^verbatim>\<open>with _autobind(...): body\<close>. \<^verbatim>\<open>_autobind\<close> is a generator, run by the
  context manager of \<^verbatim>\<open>contextlib\<close>: \<^verbatim>\<open>__enter__\<close> runs it up to the \<^verbatim>\<open>yield\<close> with
  \<^verbatim>\<open>next\<close>, and \<^verbatim>\<open>__exit__\<close> resumes it, with \<^verbatim>\<open>next\<close> when the body ended
  normally and with \<^verbatim>\<open>throw\<close> of the body's fault otherwise.

  A fault that leaves the frame of a generator is handed to whoever resumed the generator,
  except that a \<^verbatim>\<open>StopIteration\<close> is replaced by
  \<^verbatim>\<open>RuntimeError('generator raised StopIteration')\<close> (the generator semantics of
  Python 3.7 and later).
\<close>

definition generator_raise :: "fault \<Rightarrow> fault" where
  "generator_raise e =
     (if is_StopIteration e then RuntimeError ''generator raised StopIteration'' else e)"

text \<open>
  When \<^verbatim>\<open>bind\<close> raises, the generator does not reach the \<^verbatim>\<open>yield\<close> and the body does
  not run: the \<^verbatim>\<open>finally\<close> clause calls \<^verbatim>\<open>unbind\<close>, and the fault of \<^verbatim>\<open>bind\<close>, or
  the one \<^verbatim>\<open>unbind\<close> raises in its place, leaves the generator and \<^verbatim>\<open>__enter__\<close>
  (whose handler for a generator that ends without yielding does not apply to it).

  When the body ends normally, \<^verbatim>\<open>unbind\<close> is called; a fault of \<^verbatim>\<open>unbind\<close> leaves the
  generator and \<^verbatim>\<open>__exit__\<close>, and without one the generator ends and the statement is
  over.

  When the body ends in a fault \<open>v\<close>, it is thrown into the generator at the \<^verbatim>\<open>yield\<close> and
  \<^verbatim>\<open>unbind\<close> is called. If \<^verbatim>\<open>unbind\<close> returns, \<open>v\<close> comes back out of the
  generator, \<^verbatim>\<open>__exit__\<close> recognises it as the fault it threw (also through the
  \<^verbatim>\<open>RuntimeError\<close> that wraps a \<^verbatim>\<open>StopIteration\<close>) and returns false, and the
  \<^verbatim>\<open>with\<close> statement raises \<open>v\<close> again. If \<^verbatim>\<open>unbind\<close> raises, its fault, a new
  exception, leaves the generator and \<^verbatim>\<open>__exit__\<close> in place of \<open>v\<close>.
\<close>

definition u_autobind ::
  "task \<Rightarrow> string \<Rightarrow> callback \<Rightarrow> (world \<Rightarrow> 'a result) \<Rightarrow> world \<Rightarrow> 'a result" where
  "u_autobind task bind_name bind_func body w =
     (case task_bind task bind_name bind_func w of
        (Inl e, w1) \<Rightarrow>
          (case task_unbind task bind_name bind_func w1 of
             (Inl e2, w2) \<Rightarrow> (Inl (generator_raise e2), w2)
           | (Inr _, w2) \<Rightarrow> (Inl (generator_raise e), w2))
      | (Inr _, w1) \<Rightarrow>
          (case body w1 of
             (Inr r, w2) \<Rightarrow>
               (case task_unbind task bind_name bind_func w2 of
                  (Inl e2, w3) \<Rightarrow> (Inl (generator_raise e2), w3)
                | (Inr _, w3) \<Rightarrow> (Inr r, w3))
           | (Inl v, w2) \<Rightarrow>
               (case task_unbind task bind_name bind_func w2 of
                  (Inl e2, w3) \<Rightarrow> (Inl (generator_raise e2), w3)
                | (Inr _, w3) \<Rightarrow> (Inl v, w3))))"

text \<open>
  \<^verbatim>\<open>
  def _execute_task(task, arguments, progress_callback):
      with _autobind(task, 'update_progress', progress_callback):
          try:
              result = task.execute(**arguments)
          except Exception:
              result = misc.Failure()
      return task, 'executed', result
  \<close>
  \<open>arguments\<close> is a reference to the caller's dict; \<^verbatim>\<open>**arguments\<close> hands its items over.
\<close>

definition u_execute_task :: "task \<Rightarrow> nat \<Rightarrow> callback \<Rightarrow> world \<Rightarrow> outcome result" where
  "u_execute_task task arguments progress_callback w =
     (case u_autobind task ''update_progress'' progress_callback
             (\<lambda>w1. case task_execute task (dicts w1 arguments) w1 of
                      (Inr v, w2) \<Rightarrow> (Inr v, w2)
                    | (Inl e, w2) \<Rightarrow>
                        if is_Exception e then (Inr (Failure e), w2) else (Inl e, w2)) w of
        (Inl e, w') \<Rightarrow> (Inl e, w')
      | (Inr result, w') \<Rightarrow> (Inr (task, ''executed'', result), w'))"

text \<open>
  \<^verbatim>\<open>
  def _revert_task(task, arguments, result, failures, progress_callback):
      kwargs = arguments.copy()
      kwargs['result'] = result
      kwargs['flow_failures'] = failures
      with _autobind(task, 'update_progress', progress_callback):
          try:
              result = task.revert(**kwargs)
          except Exception:
              result = misc.Failure()
      return task, 'reverted', result
  \<close>
\<close>

definition u_revert_task ::
  "task \<Rightarrow> nat \<Rightarrow> pyval \<Rightarrow> pyval \<Rightarrow> callback \<Rightarrow> world \<Rightarrow> outcome result" where
  "u_revert_task task arguments result failures progress_callback w =
     (case dict_copy arguments w of
        (kwargs, wa) \<Rightarrow>
          (case u_autobind task ''update_progress'' progress_callback
                  (\<lambda>w1. case task_revert task (dicts w1 kwargs) w1 of
                           (Inr v, w2) \<Rightarrow> (Inr v, w2)
                         | (Inl e, w2) \<Rightarrow>
                             if is_Exception e then (Inr (Failure e), w2) else (Inl e, w2))
                  (dict_setitem kwargs ''flow_failures'' failures
                     (dict_setitem kwargs ''result'' result wa)) of
             (Inl e, w') \<Rightarrow> (Inl e, w')
           | (Inr result', w') \<Rightarrow> (Inr (task, ''reverted'', result'), w')))"

section \<open>The executors\<close>

text \<open>
  \<^verbatim>\<open>SerialTaskExecutor\<close> has no fields. \<^verbatim>\<open>ParallelTaskExecutor\<close> has \<^verbatim>\<open>_executor\<close>,
  a reference to a pool or \<^verbatim>\<open>None\<close>, and \<^verbatim>\<open>_own_executor\<close>.
\<close>

datatype executor =
    SerialTaskExecutor
  | ParallelTaskExecutor (u_executor: "nat option") (u_own_executor: bool)

text \<open>\<^verbatim>\<open>ParallelTaskExecutor.__init__(self, executor=None)\<close>\<close>

definition ParallelTaskExecutor_init :: "nat option \<Rightarrow> executor" where
  "ParallelTaskExecutor_init executor = ParallelTaskExecutor executor (executor = None)"

text \<open>\<^verbatim>\<open>SerialTaskExecutor._completed_future(result)\<close>\<close>

definition u_completed_future :: "outcome \<Rightarrow> future" where
  "u_completed_future result = \<lparr>fstate = FINISHED, fresult = Some result\<rparr>"

text \<open>
  \<^verbatim>\<open>execute_task\<close> and \<^verbatim>\<open>revert_task\<close>: the serial executor runs the runner and wraps
  its value; the parallel one calls \<^verbatim>\<open>self._executor.submit\<close>, which is an
  \<^verbatim>\<open>AttributeError\<close> when \<^verbatim>\<open>self._executor\<close> is \<^verbatim>\<open>None\<close>.
\<close>

fun execute_task :: "executor \<Rightarrow> task \<Rightarrow> nat \<Rightarrow> callback \<Rightarrow> world \<Rightarrow> future result" where
  "execute_task SerialTaskExecutor task arguments progress_callback w =
     (case u_execute_task task arguments progress_callback w of
        (Inl e, w') \<Rightarrow> (Inl e, w')
      | (Inr r, w') \<Rightarrow> (Inr (u_completed_future r), w'))"
| "execute_task (ParallelTaskExecutor None own) task arguments progress_callback w =
     (Inl (AttributeError ''NoneType object has no attribute submit''), w)"
| "execute_task (ParallelTaskExecutor (Some p) own) task arguments progress_callback w =
     submit p (ExecuteWork task arguments progress_callback) w"

fun revert_task ::
  "executor \<Rightarrow> task \<Rightarrow> nat \<Rightarrow> pyval \<Rightarrow> pyval \<Rightarrow> callback \<Rightarrow> world \<Rightarrow> future result" where
  "revert_task SerialTaskExecutor task arguments result failures progress_callback w =
     (case u_revert_task task arguments result failures progress_callback w of
        (Inl e, w') \<Rightarrow> (Inl e, w')
      | (Inr r, w') \<Rightarrow> (Inr (u_completed_future r), w'))"
| "revert_task (ParallelTaskExecutor None own) task arguments result failures progress_callback w =
     (Inl (AttributeError ''NoneType object has no attribute submit''), w)"
| "revert_task (ParallelTaskExecutor (Some p) own) task arguments result failures
       progress_callback w =
     submit p (RevertWork task arguments result failures progress_callback) w"

text \<open>
  What a worker of a pool does with a queued call, whenever it gets to it: it applies the
  submitted runner to the submitted arguments.
\<close>

fun run_work :: "work \<Rightarrow> world \<Rightarrow> outcome result" where
  "run_work (ExecuteWork task arguments progress_callback) w =
     u_execute_task task arguments progress_callback w"
| "run_work (RevertWork task arguments result failures progress_callback) w =
     u_revert_task task arguments result failures progress_callback w"

text \<open>\<^verbatim>\<open>SerialTaskExecutor.wait_for_any(self, fs)\<close> is \<^verbatim>\<open>return fs, []\<close>.\<close>

definition SerialTaskExecutor_wait_for_any :: "future list \<Rightarrow> future list \<times> future list" where
  "SerialTaskExecutor_wait_for_any fs = (fs, [])"

text \<open>
  \<^verbatim>\<open>start\<close>: \<^verbatim>\<open>pass\<close> in the base class, which the serial executor inherits. The parallel
  executor, when it owns its pool, makes a new pool of \<open>thread_count\<close> workers and stores the
  reference. \<open>thread_count\<close> stands for \<^verbatim>\<open>threading_utils.get_optimal_thread_count()\<close>,
  which is not part of the source at hand.
\<close>

fun start :: "nat \<Rightarrow> executor \<Rightarrow> world \<Rightarrow> executor \<times> world" where
  "start thread_count SerialTaskExecutor w = (SerialTaskExecutor, w)"
| "start thread_count (ParallelTaskExecutor ex own) w =
     (if own
      then (case ThreadPoolExecutor thread_count w of
              (p, w') \<Rightarrow> (ParallelTaskExecutor (Some p) own, w'))
      else (ParallelTaskExecutor ex own, w))"

text \<open>
  \<^verbatim>\<open>stop\<close>: \<^verbatim>\<open>pass\<close> in the base class. The parallel executor, when it owns its pool,
  calls \<^verbatim>\<open>self._executor.shutdown(wait=True)\<close>, an \<^verbatim>\<open>AttributeError\<close> when
  \<^verbatim>\<open>self._executor\<close> is \<^verbatim>\<open>None\<close>, and then sets \<^verbatim>\<open>self._executor = None\<close>. The value
  is the raised fault or \<open>()\<close>, the executor after the call, and the world.
\<close>

fun stop :: "executor \<Rightarrow> world \<Rightarrow> (fault + unit) \<times> executor \<times> world" where
  "stop SerialTaskExecutor w = (Inr (), SerialTaskExecutor, w)"
| "stop (ParallelTaskExecutor ex own) w =
     (if own
      then (case ex of
              None \<Rightarrow>
                (Inl (AttributeError ''NoneType object has no attribute shutdown''),
                 ParallelTaskExecutor ex own, w)
            | Some p \<Rightarrow> (Inr (), ParallelTaskExecutor None own, shutdown p w))
      else (Inr (), ParallelTaskExecutor ex own, w))"


section \<open>Calling twice in succession, and what an executor lets its caller observe\<close>

text \<open>
  \<^verbatim>\<open>ex.start(); ex.start()\<close> and \<^verbatim>\<open>ex.stop(); ex.stop()\<close>: the second call is
  made on the executor and the world the first one left; a fault of the first \<^verbatim>\<open>stop\<close>
  ends the sequence.
\<close>

definition start_twice :: "nat \<Rightarrow> executor \<Rightarrow> world \<Rightarrow> executor \<times> world" where
  "start_twice thread_count ex w =
     (case start thread_count ex w of (ex1, w1) \<Rightarrow> start thread_count ex1 w1)"

definition stop_twice :: "executor \<Rightarrow> world \<Rightarrow> (fault + unit) \<times> executor \<times> world" where
  "stop_twice ex w =
     (case stop ex w of
        (Inl e, ex1, w1) \<Rightarrow> (Inl e, ex1, w1)
      | (Inr _, ex1, w1) \<Rightarrow> stop ex1 w1)"

text \<open>
  What a caller sees of an executor: for a parallel executor the ownership flag and the
  contents of the pool it holds (not the address of that pool), and of the world the log and
  the dicts.
\<close>

fun held_pool :: "executor \<Rightarrow> world \<Rightarrow> (bool \<times> pool option) option" where
  "held_pool SerialTaskExecutor w = None"
| "held_pool (ParallelTaskExecutor ex own) w = Some (own, map_option (pools w) ex)"

definition observe ::
  "executor \<times> world \<Rightarrow> (bool \<times> pool option) option \<times> call list \<times> (nat \<Rightarrow> kwargs) \<times> nat" where
  "observe s = (case s of (ex, w) \<Rightarrow> (held_pool ex w, calls w, dicts w, next_dict w))"

text \<open>The number of invocations of \<^verbatim>\<open>bind\<close> and of \<^verbatim>\<open>unbind\<close> in a log, for one task,
  name and callback.\<close>

definition bind_count :: "nat \<Rightarrow> string \<Rightarrow> callback \<Rightarrow> call list \<Rightarrow> nat" where
  "bind_count tid name func cs = length (filter (\<lambda>c. c = BindCall tid name func) cs)"

definition unbind_count :: "nat \<Rightarrow> string \<Rightarrow> callback \<Rightarrow> call list \<Rightarrow> nat" where
  "unbind_count tid name func cs = length (filter (\<lambda>c. c = UnbindCall tid name func) cs)"

section \<open>Sample objects\<close>

text \<open>
  A task whose four methods do the same at every call: \<open>b\<close> and \<open>u\<close> are what \<^verbatim>\<open>bind\<close>
  and \<^verbatim>\<open>unbind\<close> raise, if anything, \<open>x\<close> and \<open>r\<close> what \<^verbatim>\<open>execute\<close> and
  \<^verbatim>\<open>revert\<close> return or raise. \<open>args_world\<close> holds the dict \<^verbatim>\<open>{"x": 1}\<close> at address 0.
\<close>

definition KeyboardInterrupt :: fault where
  "KeyboardInterrupt = Fault ''KeyboardInterrupt'' '''' BaseExceptionKind"

definition ValueError :: "string \<Rightarrow> fault" where
  "ValueError msg = Fault ''ValueError'' msg ExceptionKind"

definition StopIteration :: fault where
  "StopIteration = Fault ''StopIteration'' '''' StopIterationKind"

definition sample_task ::
  "fault option \<Rightarrow> (fault + pyval) \<Rightarrow> (fault + pyval) \<Rightarrow> fault option \<Rightarrow> task" where
  "sample_task b x r u =
     \<lparr>task_id = 7, t_bind = (\<lambda>_ _ _. b), t_execute = (\<lambda>_ _. x), t_revert = (\<lambda>_ _. r),
      t_unbind = (\<lambda>_ _ _. u)\<rparr>"

definition empty_world :: world where
  "empty_world =
     \<lparr>calls = [], dicts = (\<lambda>_. Map.empty), next_dict = 0,
      pools = (\<lambda>_. \<lparr>max_workers = 0, shutdown_flag = False, work_queue = []\<rparr>), next_pool = 0\<rparr>"

definition args_world :: world where
  "args_world =
     empty_world\<lparr>dicts := (dicts empty_world)(0 := [''x'' \<mapsto> PyInt 1]), next_dict := 1\<rparr>"

section \<open>The log and the stores after a runner call\<close>

lemmas runner_defs = u_execute_task_def u_revert_task_def u_autobind_def task_bind_def
  task_unbind_def task_execute_def task_revert_def dict_copy_def dict_setitem_def

lemma calls_u_execute_task:
  "calls (snd (u_execute_task task a cb w)) =
     calls w @ BindCall (task_id task) ''update_progress'' cb #
       (case t_bind task (calls w) ''update_progress'' cb of
          None \<Rightarrow> [ExecuteCall (task_id task) (dicts w a)]
        | Some e \<Rightarrow> []) @
       [UnbindCall (task_id task) ''update_progress'' cb]"
  by (simp add: runner_defs split: option.splits sum.splits prod.splits)

lemma calls_u_revert_task:
  "calls (snd (u_revert_task task a r f cb w)) =
     calls w @ BindCall (task_id task) ''update_progress'' cb #
       (case t_bind task (calls w) ''update_progress'' cb of
          None \<Rightarrow> [RevertCall (task_id task)
                    ((dicts w a)(''result'' \<mapsto> r, ''flow_failures'' \<mapsto> f))]
        | Some e \<Rightarrow> []) @
       [UnbindCall (task_id task) ''update_progress'' cb]"
  by (simp add: runner_defs split: option.splits sum.splits prod.splits)

lemma dicts_u_revert_task:
  "dicts (snd (u_revert_task task a r f cb w)) =
     (dicts w)(next_dict w := (dicts w a)(''result'' \<mapsto> r, ''flow_failures'' \<mapsto> f))"
  by (simp add: runner_defs split: option.splits sum.splits prod.splits)

lemma snd_serial_execute_task:
  "snd (execute_task SerialTaskExecutor task a cb w) = snd (u_execute_task task a cb w)"
  by (simp split: prod.splits sum.splits)

lemma snd_serial_revert_task:
  "snd (revert_task SerialTaskExecutor task a r f cb w) = snd (u_revert_task task a r f cb w)"
  by (simp split: prod.splits sum.splits)

lemma fst_serial_execute_task:
  "fst (execute_task SerialTaskExecutor task a cb w) =
     map_sum id u_completed_future (fst (u_execute_task task a cb w))"
  by (simp split: prod.splits sum.splits)

lemma fst_serial_revert_task:
  "fst (revert_task SerialTaskExecutor task a r f cb w) =
     map_sum id u_completed_future (fst (u_revert_task task a r f cb w))"
  by (simp split: prod.splits sum.splits)

lemma fst_u_execute_task:
  "fst (u_execute_task task a cb w) =
     (case t_bind task (calls w) ''update_progress'' cb of
        Some e \<Rightarrow>
          (case t_unbind task (calls w @ [BindCall (task_id task) ''update_progress'' cb])
                  ''update_progress'' cb of
             Some e2 \<Rightarrow> Inl (generator_raise e2)
           | None \<Rightarrow> Inl (generator_raise e))
      | None \<Rightarrow>
          (case t_unbind task
                  (calls w @ [BindCall (task_id task) ''update_progress'' cb,
                              ExecuteCall (task_id task) (dicts w a)])
                  ''update_progress'' cb of
             Some e2 \<Rightarrow> Inl (generator_raise e2)
           | None \<Rightarrow>
               (case t_execute task (calls w @ [BindCall (task_id task) ''update_progress'' cb])
                       (dicts w a) of
                  Inr v \<Rightarrow> Inr (task, ''executed'', v)
                | Inl e \<Rightarrow>
                    if is_Exception e then Inr (task, ''executed'', Failure e) else Inl e)))"
  by (simp add: runner_defs split: option.splits sum.splits prod.splits)

lemma fst_u_revert_task:
  "fst (u_revert_task task a r f cb w) =
     (case t_bind task (calls w) ''update_progress'' cb of
        Some e \<Rightarrow>
          (case t_unbind task (calls w @ [BindCall (task_id task) ''update_progress'' cb])
                  ''update_progress'' cb of
             Some e2 \<Rightarrow> Inl (generator_raise e2)
           | None \<Rightarrow> Inl (generator_raise e))
      | None \<Rightarrow>
          (case t_unbind task
                  (calls w @ [BindCall (task_id task) ''update_progress'' cb,
                              RevertCall (task_id task)
                                ((dicts w a)(''result'' \<mapsto> r, ''flow_failures'' \<mapsto> f))])
                  ''update_progress'' cb of
             Some e2 \<Rightarrow> Inl (generator_raise e2)
           | None \<Rightarrow>
               (case t_revert task (calls w @ [BindCall (task_id task) ''update_progress'' cb])
                       ((dicts w a)(''result'' \<mapsto> r, ''flow_failures'' \<mapsto> f)) of
                  Inr v \<Rightarrow> Inr (task, ''reverted'', v)
                | Inl e \<Rightarrow>
                    if is_Exception e then Inr (task, ''reverted'', Failure e) else Inl e)))"
  by (simp add: runner_defs split: option.splits sum.splits prod.splits)

lemma Failure_inject: "Failure e = Failure e' \<longleftrightarrow> e = e'"
  by (simp add: Failure_def)

text \<open>
  On a pool that is not shut down the parallel executor queues the runner call and returns a
  pending future; the queued call, once run, is the runner's.
\<close>

lemma parallel_execute_task_queues_runner:
  "\<not> shutdown_flag (pools w p) \<Longrightarrow>
     execute_task (ParallelTaskExecutor (Some p) own) task a cb w =
       (Inr \<lparr>fstate = PENDING, fresult = None\<rparr>,
        w\<lparr>pools := (pools w)(p := (pools w p)
             \<lparr>work_queue := work_queue (pools w p) @ [ExecuteWork task a cb]\<rparr>)\<rparr>)"
  by (simp add: submit_def)

lemma parallel_revert_task_queues_runner:
  "\<not> shutdown_flag (pools w p) \<Longrightarrow>
     revert_task (ParallelTaskExecutor (Some p) own) task a R F cb w =
       (Inr \<lparr>fstate = PENDING, fresult = None\<rparr>,
        w\<lparr>pools := (pools w)(p := (pools w p)
             \<lparr>work_queue := work_queue (pools w p) @ [RevertWork task a R F cb]\<rparr>)\<rparr>)"
  by (simp add: submit_def)

lemma submit_after_shutdown:
  "submit p item (shutdown p w) =
     (Inl (RuntimeError ''cannot schedule new futures after shutdown''), shutdown p w)"
  by (simp add: submit_def shutdown_def)

section \<open>The claims\<close>

subsection \<open>Fault normalisation (C1)\<close>

text \<open>
  C1, as stated: every fault \<open>E\<close> raised by the \<^verbatim>\<open>execute\<close> call ends up as a Failure in
  an outcome with the verb \<^verbatim>\<open>executed\<close>, and the runner (hence \<^verbatim>\<open>execute_task\<close>) returns.
  It does not hold for every fault and every task. The handler is \<^verbatim>\<open>except Exception:\<close>, so
  a \<^verbatim>\<open>KeyboardInterrupt\<close> raised by \<^verbatim>\<open>execute\<close> leaves the runner and the serial
  executor's \<^verbatim>\<open>execute_task\<close> as it is. And when \<^verbatim>\<open>execute\<close> raises a
  \<^verbatim>\<open>ValueError\<close> and \<^verbatim>\<open>unbind\<close>, called by the \<^verbatim>\<open>finally\<close> clause, raises a
  \<^verbatim>\<open>RuntimeError\<close>, the runner raises the \<^verbatim>\<open>RuntimeError\<close> and returns no outcome.
\<close>

theorem execute_fault_escapes_counterexample:
  "fst (u_execute_task (sample_task None (Inl KeyboardInterrupt) (Inr PyNone) None)
          0 u_noop args_world) = Inl KeyboardInterrupt
   \<and> fst (execute_task SerialTaskExecutor
            (sample_task None (Inl KeyboardInterrupt) (Inr PyNone) None)
            0 u_noop args_world) = Inl KeyboardInterrupt
   \<and> fst (u_execute_task
            (sample_task None (Inl (ValueError ''boom'')) (Inr PyNone)
               (Some (RuntimeError ''unbind'')))
            0 u_noop args_world) = Inl (RuntimeError ''unbind'')"
  by (simp add: fst_serial_execute_task fst_u_execute_task sample_task_def generator_raise_def
      KeyboardInterrupt_def ValueError_def RuntimeError_def del: execute_task.simps)

text \<open>
  C1, amended: for every task whose \<^verbatim>\<open>bind\<close> returns, whose \<^verbatim>\<open>execute\<close> call then raises
  a fault \<open>E\<close> that is an instance of \<^verbatim>\<open>Exception\<close>, and whose \<^verbatim>\<open>unbind\<close> returns after
  that, the runner \<^verbatim>\<open>_execute_task\<close> returns the outcome \<^verbatim>\<open>(task, 'executed', Failure)\<close>
  with the Failure capturing \<open>E\<close>, and the serial executor's \<^verbatim>\<open>execute_task\<close> returns a
  finished future carrying that outcome; \<open>E\<close> is not raised to the caller.
\<close>

theorem execute_fault_captured:
  assumes "t_bind task (calls w) ''update_progress'' cb = None"
    and "t_execute task (calls w @ [BindCall (task_id task) ''update_progress'' cb])
           (dicts w a) = Inl E"
    and "is_Exception E"
    and "t_unbind task
           (calls w @ [BindCall (task_id task) ''update_progress'' cb,
                       ExecuteCall (task_id task) (dicts w a)])
           ''update_progress'' cb = None"
  shows "fst (u_execute_task task a cb w) = Inr (task, ''executed'', Failure E)
       \<and> fst (execute_task SerialTaskExecutor task a cb w) =
           Inr (u_completed_future (task, ''executed'', Failure E))"
  using assms
  by (simp add: fst_serial_execute_task fst_u_execute_task del: execute_task.simps)

text \<open>The theorem of C1 at a task whose \<^verbatim>\<open>execute\<close> raises \<^verbatim>\<open>ValueError('boom')\<close>.\<close>

theorem execute_fault_captured_witness:
  "t_bind (sample_task None (Inl (ValueError ''boom'')) (Inr PyNone) None)
     (calls args_world) ''update_progress'' u_noop = None
   \<and> t_execute (sample_task None (Inl (ValueError ''boom'')) (Inr PyNone) None)
       (calls args_world @ [BindCall 7 ''update_progress'' u_noop]) (dicts args_world 0) =
       Inl (ValueError ''boom'')
   \<and> is_Exception (ValueError ''boom'')
   \<and> t_unbind (sample_task None (Inl (ValueError ''boom'')) (Inr PyNone) None)
       (calls args_world @ [BindCall 7 ''update_progress'' u_noop,
                            ExecuteCall 7 (dicts args_world 0)])
       ''update_progress'' u_noop = None
   \<and> fst (u_execute_task (sample_task None (Inl (ValueError ''boom'')) (Inr PyNone) None)
            0 u_noop args_world) =
       Inr (sample_task None (Inl (ValueError ''boom'')) (Inr PyNone) None, ''executed'',
            Failure (ValueError ''boom''))
   \<and> fst (execute_task SerialTaskExecutor
            (sample_task None (Inl (ValueError ''boom'')) (Inr PyNone) None)
            0 u_noop args_world) =
       Inr (u_completed_future
             (sample_task None (Inl (ValueError ''boom'')) (Inr PyNone) None, ''executed'',
              Failure (ValueError ''boom'')))"
  using execute_fault_captured
    [of "sample_task None (Inl (ValueError ''boom'')) (Inr PyNone) None" args_world u_noop 0
        "ValueError ''boom''"]
  by (simp add: sample_task_def ValueError_def)

subsection \<open>Revert argument augmentation (C2)\<close>

text \<open>
  C2, as stated: for every task, \<^verbatim>\<open>revert_task\<close> invokes \<^verbatim>\<open>revert\<close> with the augmented
  mapping. For a task whose \<^verbatim>\<open>bind\<close> raises, the body of the \<^verbatim>\<open>with\<close> statement does not
  run: the invocations made are \<^verbatim>\<open>bind\<close> and \<^verbatim>\<open>unbind\<close>, and \<^verbatim>\<open>revert\<close> is not
  among them.
\<close>

theorem revert_not_invoked_counterexample:
  "calls (snd (u_revert_task
                 (sample_task (Some (ValueError ''bind'')) (Inr PyNone) (Inr PyNone) None)
                 0 (PyInt 5) (PyDict []) u_noop args_world)) =
     [BindCall 7 ''update_progress'' u_noop, UnbindCall 7 ''update_progress'' u_noop]"
  by (simp add: calls_u_revert_task sample_task_def args_world_def empty_world_def)

text \<open>
  C2, amended: for every task whose \<^verbatim>\<open>bind\<close> returns, \<^verbatim>\<open>_revert_task\<close> invokes
  \<^verbatim>\<open>revert\<close> once, between \<^verbatim>\<open>bind\<close> and \<^verbatim>\<open>unbind\<close>, with the mapping that is the
  caller's \<open>args\<close> extended with \<^verbatim>\<open>result\<close> mapped to \<open>R\<close> and \<^verbatim>\<open>flow_failures\<close> mapped to
  \<open>F\<close>. For every task, whatever its methods do, the caller's dict (any dict that exists
  before the call) holds after the call what it held before: the two keys are set in the copy.
  The serial executor's \<^verbatim>\<open>revert_task\<close> leaves the same world as the runner.
\<close>

theorem revert_kwargs:
  "(t_bind task (calls w) ''update_progress'' cb = None \<longrightarrow>
      calls (snd (u_revert_task task a R F cb w)) =
        calls w @
          [BindCall (task_id task) ''update_progress'' cb,
           RevertCall (task_id task)
             ((dicts w a)(''result'' \<mapsto> R, ''flow_failures'' \<mapsto> F)),
           UnbindCall (task_id task) ''update_progress'' cb])
   \<and> (a < next_dict w \<longrightarrow> dicts (snd (u_revert_task task a R F cb w)) a = dicts w a)
   \<and> snd (revert_task SerialTaskExecutor task a R F cb w) =
       snd (u_revert_task task a R F cb w)"
  by (simp add: calls_u_revert_task dicts_u_revert_task snd_serial_revert_task
      del: revert_task.simps)

text \<open>The theorem of C2 at \<^verbatim>\<open>args = {"x": 1}\<close>, \<^verbatim>\<open>result = 5\<close>, \<^verbatim>\<open>failures = {}\<close>.\<close>

theorem revert_kwargs_witness:
  "t_bind (sample_task None (Inr PyNone) (Inr PyNone) None) (calls args_world)
     ''update_progress'' u_noop = None
   \<and> (0::nat) < next_dict args_world
   \<and> calls (snd (revert_task SerialTaskExecutor
                   (sample_task None (Inr PyNone) (Inr PyNone) None)
                   0 (PyInt 5) (PyDict []) u_noop args_world)) =
       [BindCall 7 ''update_progress'' u_noop,
        RevertCall 7 [''x'' \<mapsto> PyInt 1, ''result'' \<mapsto> PyInt 5, ''flow_failures'' \<mapsto> PyDict []],
        UnbindCall 7 ''update_progress'' u_noop]
   \<and> dicts (snd (revert_task SerialTaskExecutor
                   (sample_task None (Inr PyNone) (Inr PyNone) None)
                   0 (PyInt 5) (PyDict []) u_noop args_world)) 0 = [''x'' \<mapsto> PyInt 1]"
  using revert_kwargs
    [of "sample_task None (Inr PyNone) (Inr PyNone) None" args_world u_noop 0
        "PyInt 5" "PyDict []"]
  by (simp add: sample_task_def args_world_def empty_world_def del: revert_task.simps)

subsection \<open>Scoped binding (C3)\<close>

text \<open>
  C3: for every task and every call of \<^verbatim>\<open>_execute_task\<close> or \<^verbatim>\<open>_revert_task\<close>, whether
  the methods of the task return or raise, the call makes exactly one invocation of
  \<^verbatim>\<open>bind\<close> and exactly one of \<^verbatim>\<open>unbind\<close> with the name \<^verbatim>\<open>update_progress\<close> and the
  progress callback, and the \<^verbatim>\<open>unbind\<close> is the last invocation it makes. So the count of
  binds and the count of unbinds each grow by one, and among the invocations the call itself
  makes the two counts are equal.
\<close>

theorem unbound_exactly_once:
  "bind_count (task_id task) ''update_progress'' cb (calls (snd (u_execute_task task a cb w))) =
     bind_count (task_id task) ''update_progress'' cb (calls w) + 1
   \<and> unbind_count (task_id task) ''update_progress'' cb
       (calls (snd (u_execute_task task a cb w))) =
     unbind_count (task_id task) ''update_progress'' cb (calls w) + 1
   \<and> last (calls (snd (u_execute_task task a cb w))) =
       UnbindCall (task_id task) ''update_progress'' cb
   \<and> bind_count (task_id task) ''update_progress'' cb
       (calls (snd (u_revert_task task a R F cb w))) =
     bind_count (task_id task) ''update_progress'' cb (calls w) + 1
   \<and> unbind_count (task_id task) ''update_progress'' cb
       (calls (snd (u_revert_task task a R F cb w))) =
     unbind_count (task_id task) ''update_progress'' cb (calls w) + 1
   \<and> last (calls (snd (u_revert_task task a R F cb w))) =
       UnbindCall (task_id task) ''update_progress'' cb
   \<and> bind_count (task_id task) ''update_progress'' cb
       (drop (length (calls w)) (calls (snd (u_execute_task task a cb w)))) =
     unbind_count (task_id task) ''update_progress'' cb
       (drop (length (calls w)) (calls (snd (u_execute_task task a cb w))))
   \<and> bind_count (task_id task) ''update_progress'' cb
       (drop (length (calls w)) (calls (snd (u_revert_task task a R F cb w)))) =
     unbind_count (task_id task) ''update_progress'' cb
       (drop (length (calls w)) (calls (snd (u_revert_task task a R F cb w))))"
  by (simp add: calls_u_execute_task calls_u_revert_task bind_count_def unbind_count_def
      split: option.splits)

subsection \<open>Owned and borrowed pools (C4)\<close>

text \<open>
  C4: a parallel executor made with the caller's pool \<open>p\<close> leaves the whole world as it is in
  \<^verbatim>\<open>stop()\<close>, before or after \<^verbatim>\<open>start()\<close>, so \<open>p\<close> is not shut down and a submission to
  \<open>p\<close> after the \<^verbatim>\<open>stop()\<close> does what it did before. A parallel executor made with no pool
  creates one in \<^verbatim>\<open>start()\<close>; \<^verbatim>\<open>stop()\<close> then returns, drops the reference, and leaves
  that pool shut down: a submission to it raises \<^verbatim>\<open>RuntimeError\<close>.
\<close>

theorem stop_spares_borrowed_pool:
  "stop (ParallelTaskExecutor_init (Some p)) w =
     (Inr (), ParallelTaskExecutor_init (Some p), w)
   \<and> stop (fst (start n (ParallelTaskExecutor_init (Some p)) w))
         (snd (start n (ParallelTaskExecutor_init (Some p)) w)) =
     (Inr (), ParallelTaskExecutor_init (Some p), w)
   \<and> submit p item (snd (snd (stop (ParallelTaskExecutor_init (Some p)) w))) = submit p item w
   \<and> fst (stop (fst (start n (ParallelTaskExecutor_init None) w))
             (snd (start n (ParallelTaskExecutor_init None) w))) = Inr ()
   \<and> fst (snd (stop (fst (start n (ParallelTaskExecutor_init None) w))
                  (snd (start n (ParallelTaskExecutor_init None) w)))) =
       ParallelTaskExecutor None True
   \<and> shutdown_flag
       (pools (snd (snd (stop (fst (start n (ParallelTaskExecutor_init None) w))
                          (snd (start n (ParallelTaskExecutor_init None) w)))))
          (next_pool w))
   \<and> fst (submit (next_pool w) item
             (snd (snd (stop (fst (start n (ParallelTaskExecutor_init None) w))
                          (snd (start n (ParallelTaskExecutor_init None) w)))))) =
       Inl (RuntimeError ''cannot schedule new futures after shutdown'')"
  by (simp add: ParallelTaskExecutor_init_def ThreadPoolExecutor_def submit_def shutdown_def)

subsection \<open>Stopping (C5)\<close>

text \<open>
  C5, as stated: \<^verbatim>\<open>stop()\<close> is idempotent for every executor and does not raise when
  nothing was started. For a parallel executor that owns its pool, \<^verbatim>\<open>stop()\<close> reads
  \<^verbatim>\<open>self._executor.shutdown\<close> with no test for \<^verbatim>\<open>None\<close>: called before any
  \<^verbatim>\<open>start()\<close> it raises \<^verbatim>\<open>AttributeError\<close>, and after \<^verbatim>\<open>start()\<close> the first
  \<^verbatim>\<open>stop()\<close> returns and the second raises \<^verbatim>\<open>AttributeError\<close>.
\<close>

theorem stop_not_idempotent_counterexample:
  "fst (stop (ParallelTaskExecutor_init None) empty_world) =
     Inl (AttributeError ''NoneType object has no attribute shutdown'')
   \<and> fst (stop (fst (start 4 (ParallelTaskExecutor_init None) empty_world))
             (snd (start 4 (ParallelTaskExecutor_init None) empty_world))) = Inr ()
   \<and> fst (stop_twice (fst (start 4 (ParallelTaskExecutor_init None) empty_world))
             (snd (start 4 (ParallelTaskExecutor_init None) empty_world))) =
       Inl (AttributeError ''NoneType object has no attribute shutdown'')"
  by (simp add: ParallelTaskExecutor_init_def ThreadPoolExecutor_def stop_twice_def)

text \<open>
  C5, amended: for the serial executor and for a parallel executor that borrows its pool,
  \<^verbatim>\<open>stop()\<close> returns without a fault and changes nothing, called once or twice in a row,
  started or not. For a parallel executor that owns its pool and holds one, \<^verbatim>\<open>stop()\<close>
  returns, shuts down that pool and no other, and drops the reference (after \<^verbatim>\<open>start()\<close>
  that pool is the one \<^verbatim>\<open>start()\<close> made, and every pool that was there before is as it
  was); when it holds none (never started, or stopped already) \<^verbatim>\<open>stop()\<close> raises
  \<^verbatim>\<open>AttributeError\<close> and changes nothing, so the second of two calls in a row raises.
\<close>

theorem stop_releases_own_pool_only:
  "stop SerialTaskExecutor w = (Inr (), SerialTaskExecutor, w)
   \<and> stop_twice SerialTaskExecutor w = (Inr (), SerialTaskExecutor, w)
   \<and> stop (ParallelTaskExecutor ex False) w = (Inr (), ParallelTaskExecutor ex False, w)
   \<and> stop_twice (ParallelTaskExecutor ex False) w = (Inr (), ParallelTaskExecutor ex False, w)
   \<and> stop (ParallelTaskExecutor (Some p) True) w =
       (Inr (), ParallelTaskExecutor None True,
        w\<lparr>pools := (pools w)(p := (pools w p)\<lparr>shutdown_flag := True\<rparr>)\<rparr>)
   \<and> stop (ParallelTaskExecutor None True) w =
       (Inl (AttributeError ''NoneType object has no attribute shutdown''),
        ParallelTaskExecutor None True, w)
   \<and> stop_twice (ParallelTaskExecutor (Some p) True) w =
       (Inl (AttributeError ''NoneType object has no attribute shutdown''),
        ParallelTaskExecutor None True,
        w\<lparr>pools := (pools w)(p := (pools w p)\<lparr>shutdown_flag := True\<rparr>)\<rparr>)
   \<and> pools (snd (snd (stop (fst (start n (ParallelTaskExecutor ex True) w))
                          (snd (start n (ParallelTaskExecutor ex True) w))))) =
       (pools w)(next_pool w := \<lparr>max_workers = n, shutdown_flag = True, work_queue = []\<rparr>)"
  by (simp add: stop_twice_def shutdown_def ThreadPoolExecutor_def)

subsection \<open>Waiting on the serial executor (C6)\<close>

text \<open>
  C6: for every collection \<open>fs\<close> of futures, the serial executor's \<^verbatim>\<open>wait_for_any(fs)\<close>
  returns the pair of \<open>fs\<close> itself as the done part and the empty list as the not-done part.
  The function calls nothing, so there is nothing for it to wait on.
\<close>

theorem serial_wait_for_any:
  "SerialTaskExecutor_wait_for_any fs = (fs, [])
   \<and> fst (SerialTaskExecutor_wait_for_any fs) = fs
   \<and> snd (SerialTaskExecutor_wait_for_any fs) = []"
  by (simp add: SerialTaskExecutor_wait_for_any_def)

text \<open>Every future the serial executor returns is finished.\<close>

lemma serial_futures_finished:
  "fst (execute_task SerialTaskExecutor task a cb w) = Inr f \<Longrightarrow> fstate f = FINISHED"
  "fst (revert_task SerialTaskExecutor task a R F cb w) = Inr f \<Longrightarrow> fstate f = FINISHED"
  by (auto simp: u_completed_future_def split: prod.splits sum.splits)

subsection \<open>The outcome of a returning call (C7)\<close>

text \<open>
  C7, as stated: for every task whose \<^verbatim>\<open>execute\<close> call returns \<open>v\<close>, the outcome is
  \<^verbatim>\<open>(task, 'executed', v)\<close>. For a task whose \<^verbatim>\<open>execute\<close> returns 42 and whose
  \<^verbatim>\<open>unbind\<close> raises, the fault of \<^verbatim>\<open>unbind\<close> leaves the \<^verbatim>\<open>with\<close> statement, the
  \<^verbatim>\<open>return\<close> statement is not reached, and the runner and the serial executor's
  \<^verbatim>\<open>execute_task\<close> raise that fault.
\<close>

theorem outcome_lost_counterexample:
  "t_execute (sample_task None (Inr (PyInt 42)) (Inr PyNone) (Some (RuntimeError ''unbind'')))
     [BindCall 7 ''update_progress'' u_noop] (dicts args_world 0) = Inr (PyInt 42)
   \<and> fst (u_execute_task
            (sample_task None (Inr (PyInt 42)) (Inr PyNone) (Some (RuntimeError ''unbind'')))
            0 u_noop args_world) = Inl (RuntimeError ''unbind'')
   \<and> fst (execute_task SerialTaskExecutor
            (sample_task None (Inr (PyInt 42)) (Inr PyNone) (Some (RuntimeError ''unbind'')))
            0 u_noop args_world) = Inl (RuntimeError ''unbind'')"
  by (simp add: fst_serial_execute_task fst_u_execute_task sample_task_def generator_raise_def
      RuntimeError_def del: execute_task.simps)

text \<open>
  C7, amended: for every task whose \<^verbatim>\<open>bind\<close> returns, whose \<^verbatim>\<open>execute\<close> call returns
  \<open>v\<close> and whose \<^verbatim>\<open>unbind\<close> returns after that, \<^verbatim>\<open>_execute_task\<close> returns exactly
  \<^verbatim>\<open>(task, 'executed', v)\<close> and the serial executor's \<^verbatim>\<open>execute_task\<close> a finished future
  carrying it; under the same conditions on \<^verbatim>\<open>bind\<close>, \<^verbatim>\<open>revert\<close> (returning \<open>r\<close>) and
  \<^verbatim>\<open>unbind\<close>, \<^verbatim>\<open>_revert_task\<close> returns exactly \<^verbatim>\<open>(task, 'reverted', r)\<close> and
  \<^verbatim>\<open>revert_task\<close> a finished future carrying it.
\<close>

theorem outcome_of_returning_call:
  "(t_bind task (calls w) ''update_progress'' cb = None \<longrightarrow>
    t_execute task (calls w @ [BindCall (task_id task) ''update_progress'' cb]) (dicts w a) =
      Inr v \<longrightarrow>
    t_unbind task
      (calls w @ [BindCall (task_id task) ''update_progress'' cb,
                  ExecuteCall (task_id task) (dicts w a)])
      ''update_progress'' cb = None \<longrightarrow>
    fst (u_execute_task task a cb w) = Inr (task, ''executed'', v)
    \<and> fst (execute_task SerialTaskExecutor task a cb w) =
        Inr (u_completed_future (task, ''executed'', v)))
   \<and> (t_bind task (calls w) ''update_progress'' cb = None \<longrightarrow>
      t_revert task (calls w @ [BindCall (task_id task) ''update_progress'' cb])
        ((dicts w a)(''result'' \<mapsto> R, ''flow_failures'' \<mapsto> F)) = Inr r \<longrightarrow>
      t_unbind task
        (calls w @ [BindCall (task_id task) ''update_progress'' cb,
                    RevertCall (task_id task)
                      ((dicts w a)(''result'' \<mapsto> R, ''flow_failures'' \<mapsto> F))])
        ''update_progress'' cb = None \<longrightarrow>
      fst (u_revert_task task a R F cb w) = Inr (task, ''reverted'', r)
      \<and> fst (revert_task SerialTaskExecutor task a R F cb w) =
          Inr (u_completed_future (task, ''reverted'', r)))"
  by (simp add: fst_serial_execute_task fst_u_execute_task fst_serial_revert_task
      fst_u_revert_task del: execute_task.simps revert_task.simps)

text \<open>The theorem of C7 at a task whose \<^verbatim>\<open>execute\<close> returns 42 and whose \<^verbatim>\<open>revert\<close>
  returns \<^verbatim>\<open>None\<close>.\<close>

theorem outcome_of_returning_call_witness:
  "t_execute (sample_task None (Inr (PyInt 42)) (Inr PyNone) None)
     (calls args_world @ [BindCall 7 ''update_progress'' u_noop]) (dicts args_world 0) =
     Inr (PyInt 42)
   \<and> fst (execute_task SerialTaskExecutor (sample_task None (Inr (PyInt 42)) (Inr PyNone) None)
            0 u_noop args_world) =
       Inr (u_completed_future
              (sample_task None (Inr (PyInt 42)) (Inr PyNone) None, ''executed'', PyInt 42))
   \<and> fst (revert_task SerialTaskExecutor (sample_task None (Inr (PyInt 42)) (Inr PyNone) None)
            0 (PyInt 42) (PyDict []) u_noop args_world) =
       Inr (u_completed_future
              (sample_task None (Inr (PyInt 42)) (Inr PyNone) None, ''reverted'', PyNone))"
  using outcome_of_returning_call
    [of "sample_task None (Inr (PyInt 42)) (Inr PyNone) None" args_world u_noop 0
        "PyInt 42" "PyInt 42" "PyDict []" PyNone]
  by (simp add: sample_task_def del: execute_task.simps revert_task.simps)

subsection \<open>Starting (C8)\<close>

text \<open>
  C8: \<^verbatim>\<open>start()\<close> twice in succession against \<^verbatim>\<open>start()\<close> once. For the serial executor
  and for a parallel executor that borrows its pool the two give the same executor and the
  same world. For every executor they give the same observation: the same ownership flag, a
  held pool with the same contents, the same log and dicts. For a parallel executor that owns
  its pool that held pool is a new one with \<open>thread_count\<close> workers, not shut down, with
  nothing submitted, after one call as after two. The pool stores after one call and after two
  differ at one address only, the first free one after the first call, where the second call
  puts its new pool.
\<close>

theorem start_idempotent:
  "start_twice n SerialTaskExecutor w = start n SerialTaskExecutor w
   \<and> start_twice n (ParallelTaskExecutor ex False) w = start n (ParallelTaskExecutor ex False) w
   \<and> observe (start_twice n e w) = observe (start n e w)
   \<and> pools (snd (start_twice n e w)) =
       (pools (snd (start n e w)))
         (next_pool (snd (start n e w)) :=
            pools (snd (start_twice n e w)) (next_pool (snd (start n e w))))
   \<and> held_pool (fst (start n (ParallelTaskExecutor ex True) w))
        (snd (start n (ParallelTaskExecutor ex True) w)) =
       Some (True, Some \<lparr>max_workers = n, shutdown_flag = False, work_queue = []\<rparr>)"
proof -
  have obs: "observe (start_twice n e w) = observe (start n e w)"
  proof (cases e)
    case SerialTaskExecutor
    then show ?thesis by (simp add: start_twice_def)
  next
    case (ParallelTaskExecutor ex' own)
    then show ?thesis
      by (cases own) (simp_all add: start_twice_def observe_def ThreadPoolExecutor_def)
  qed
  have frame: "pools (snd (start_twice n e w)) =
       (pools (snd (start n e w)))
         (next_pool (snd (start n e w)) :=
            pools (snd (start_twice n e w)) (next_pool (snd (start n e w))))"
  proof (cases e)
    case SerialTaskExecutor
    then show ?thesis by (simp add: start_twice_def)
  next
    case (ParallelTaskExecutor ex' own)
    then show ?thesis
      by (cases own) (simp_all add: start_twice_def ThreadPoolExecutor_def)
  qed
  show ?thesis
    using obs frame by (simp add: start_twice_def ThreadPoolExecutor_def)
qed

text \<open>
  The executor and the world themselves are not the same after two calls for an executor that
  owns its pool: the second call makes another pool and the reference moves on to it, while the
  pool of the first call stays behind, unreferenced and with nothing submitted.
\<close>

lemma start_twice_new_pool:
  "fst (start 4 (ParallelTaskExecutor_init None) empty_world) =
     ParallelTaskExecutor (Some 0) True
   \<and> fst (start_twice 4 (ParallelTaskExecutor_init None) empty_world) =
       ParallelTaskExecutor (Some 1) True
   \<and> pools (snd (start_twice 4 (ParallelTaskExecutor_init None) empty_world)) 0 =
       \<lparr>max_workers = 4, shutdown_flag = False, work_queue = []\<rparr>"
  by (simp add: start_twice_def ParallelTaskExecutor_init_def ThreadPoolExecutor_def
      empty_world_def)

subsection \<open>A fault of bind (C9)\<close>

text \<open>
  C9, as stated: the fault raised by \<^verbatim>\<open>bind\<close> is the one that reaches the caller. When
  \<^verbatim>\<open>unbind\<close>, called by the \<^verbatim>\<open>finally\<close> clause, raises as well, its fault replaces the
  one of \<^verbatim>\<open>bind\<close>: here \<^verbatim>\<open>bind\<close> raises a \<^verbatim>\<open>ValueError\<close> and the runner raises the
  \<^verbatim>\<open>RuntimeError\<close> of \<^verbatim>\<open>unbind\<close>. And when \<^verbatim>\<open>bind\<close> raises a
  \<^verbatim>\<open>StopIteration\<close> and \<^verbatim>\<open>unbind\<close> returns, the fault leaves the generator
  \<^verbatim>\<open>_autobind\<close> as a \<^verbatim>\<open>RuntimeError\<close>, and that is what the runner raises.
\<close>

theorem bind_fault_replaced_counterexample:
  "t_bind (sample_task (Some (ValueError ''bind'')) (Inr PyNone) (Inr PyNone)
             (Some (RuntimeError ''unbind'')))
     (calls args_world) ''update_progress'' u_noop = Some (ValueError ''bind'')
   \<and> fst (u_execute_task
            (sample_task (Some (ValueError ''bind'')) (Inr PyNone) (Inr PyNone)
               (Some (RuntimeError ''unbind'')))
            0 u_noop args_world) = Inl (RuntimeError ''unbind'')
   \<and> RuntimeError ''unbind'' \<noteq> ValueError ''bind''
   \<and> t_bind (sample_task (Some StopIteration) (Inr PyNone) (Inr PyNone) None)
       (calls args_world) ''update_progress'' u_noop = Some StopIteration
   \<and> fst (u_execute_task (sample_task (Some StopIteration) (Inr PyNone) (Inr PyNone) None)
            0 u_noop args_world) = Inl (RuntimeError ''generator raised StopIteration'')
   \<and> RuntimeError ''generator raised StopIteration'' \<noteq> StopIteration"
  by (simp add: fst_u_execute_task sample_task_def generator_raise_def RuntimeError_def
      ValueError_def StopIteration_def)

text \<open>
  C9, amended: for every task whose \<^verbatim>\<open>bind\<close> raises \<open>E\<close>, \<^verbatim>\<open>_execute_task\<close> and
  \<^verbatim>\<open>_revert_task\<close> raise to their caller and return no outcome (no Failure is made).
  The fault in flight is \<open>E\<close> when \<^verbatim>\<open>unbind\<close> returns and the fault of \<^verbatim>\<open>unbind\<close> when
  \<^verbatim>\<open>unbind\<close> raises too; the caller gets that fault itself, unless it is a
  \<^verbatim>\<open>StopIteration\<close>, in whose place the caller gets
  \<^verbatim>\<open>RuntimeError('generator raised StopIteration')\<close>. In every case the invocations made
  are the \<^verbatim>\<open>bind\<close> and one \<^verbatim>\<open>unbind\<close>, and neither \<^verbatim>\<open>execute\<close> nor \<^verbatim>\<open>revert\<close>.
\<close>

theorem bind_fault_propagates:
  assumes "t_bind task (calls w) ''update_progress'' cb = Some E"
  shows "fst (u_execute_task task a cb w) =
           Inl (generator_raise
                  (case t_unbind task
                          (calls w @ [BindCall (task_id task) ''update_progress'' cb])
                          ''update_progress'' cb of
                     None \<Rightarrow> E
                   | Some E2 \<Rightarrow> E2))
       \<and> calls (snd (u_execute_task task a cb w)) =
           calls w @ [BindCall (task_id task) ''update_progress'' cb,
                      UnbindCall (task_id task) ''update_progress'' cb]
       \<and> fst (u_revert_task task a R F cb w) =
           Inl (generator_raise
                  (case t_unbind task
                          (calls w @ [BindCall (task_id task) ''update_progress'' cb])
                          ''update_progress'' cb of
                     None \<Rightarrow> E
                   | Some E2 \<Rightarrow> E2))
       \<and> calls (snd (u_revert_task task a R F cb w)) =
           calls w @ [BindCall (task_id task) ''update_progress'' cb,
                      UnbindCall (task_id task) ''update_progress'' cb]"
  using assms
  by (simp add: fst_u_execute_task fst_u_revert_task calls_u_execute_task calls_u_revert_task
      split: option.splits)

text \<open>
  The theorem of C9 at a task whose \<^verbatim>\<open>bind\<close> raises \<^verbatim>\<open>ValueError('bind')\<close> and whose
  \<^verbatim>\<open>unbind\<close> returns, and at one whose \<^verbatim>\<open>bind\<close> raises \<^verbatim>\<open>StopIteration\<close>.
\<close>

theorem bind_fault_propagates_witness:
  "t_bind (sample_task (Some (ValueError ''bind'')) (Inr PyNone) (Inr PyNone) None)
     (calls args_world) ''update_progress'' u_noop = Some (ValueError ''bind'')
   \<and> fst (u_execute_task
            (sample_task (Some (ValueError ''bind'')) (Inr PyNone) (Inr PyNone) None)
            0 u_noop args_world) = Inl (ValueError ''bind'')
   \<and> calls (snd (u_execute_task
                   (sample_task (Some (ValueError ''bind'')) (Inr PyNone) (Inr PyNone) None)
                   0 u_noop args_world)) =
       [BindCall 7 ''update_progress'' u_noop, UnbindCall 7 ''update_progress'' u_noop]
   \<and> t_bind (sample_task (Some StopIteration) (Inr PyNone) (Inr PyNone) None)
       (calls args_world) ''update_progress'' u_noop = Some StopIteration
   \<and> fst (u_revert_task (sample_task (Some StopIteration) (Inr PyNone) (Inr PyNone) None)
            0 (PyInt 5) (PyDict []) u_noop args_world) =
       Inl (RuntimeError ''generator raised StopIteration'')"
  using bind_fault_propagates
    [of "sample_task (Some (ValueError ''bind'')) (Inr PyNone) (Inr PyNone) None" args_world
        u_noop "ValueError ''bind''" 0]
    bind_fault_propagates
    [of "sample_task (Some StopIteration) (Inr PyNone) (Inr PyNone) None" args_world
        u_noop StopIteration 0 "PyInt 5" "PyDict []"]
  by (simp add: sample_task_def args_world_def empty_world_def generator_raise_def
      ValueError_def StopIteration_def)

subsection \<open>Submitting without a pool (C10)\<close>

text \<open>
  C10: for a parallel executor made with no pool, \<^verbatim>\<open>execute_task\<close> and \<^verbatim>\<open>revert_task\<close>
  called before \<^verbatim>\<open>start()\<close>, or after \<^verbatim>\<open>start()\<close> and \<^verbatim>\<open>stop()\<close>, return no future:
  \<^verbatim>\<open>self._executor\<close> is \<^verbatim>\<open>None\<close> and reading \<^verbatim>\<open>submit\<close> from it raises
  \<^verbatim>\<open>AttributeError\<close>; before \<^verbatim>\<open>start()\<close> the world is left as it was.
\<close>

theorem submit_without_pool_fails:
  "execute_task (ParallelTaskExecutor_init None) task a cb w =
     (Inl (AttributeError ''NoneType object has no attribute submit''), w)
   \<and> revert_task (ParallelTaskExecutor_init None) task a R F cb w =
       (Inl (AttributeError ''NoneType object has no attribute submit''), w)
   \<and> fst (execute_task
            (fst (snd (stop (fst (start n (ParallelTaskExecutor_init None) w))
                          (snd (start n (ParallelTaskExecutor_init None) w)))))
            task a cb w') =
       Inl (AttributeError ''NoneType object has no attribute submit'')
   \<and> fst (revert_task
            (fst (snd (stop (fst (start n (ParallelTaskExecutor_init None) w))
                          (snd (start n (ParallelTaskExecutor_init None) w)))))
            task a R F cb w') =
       Inl (AttributeError ''NoneType object has no attribute submit'')"
  by (simp add: ParallelTaskExecutor_init_def ThreadPoolExecutor_def)

end
